theory Spec2Isabelle
  imports Main
begin

section \<open>Python values\<close>

text \<open>
  The values that flow through \<^verbatim>\<open>chaosk8s/__init__.py\<close>: what a secrets dictionary
  may hold, what \<^verbatim>\<open>os.environ\<close> holds (always strings) and what \<^verbatim>\<open>json.loads\<close>
  returns. A Python \<^verbatim>\<open>dict\<close> with string keys that is only read is a map
  \<open>string \<rightharpoonup> 'v\<close>; a decoded JSON object keeps its key order in an association list
  (of distinct keys, as a dictionary has them), since the module iterates over decoded
  values. Numbers are never inspected by the module; integers stand for them.
\<close>

datatype pyval =
    PyNone
  | PyBool bool
  | PyInt int
  | PyStr string
  | PyList "pyval list"
  | PyDict "(string \<times> pyval) list"

text \<open>Exceptions: the two the module's own subscripts and loops can raise, and whatever a
  collaborator (the Kubernetes client, \<^verbatim>\<open>json\<close>, chaoslib) raises, by name.\<close>

datatype exn = KeyError string | TypeError | Raised string

text \<open>\<^verbatim>\<open>d.get(k, default)\<close>\<close>

definition dict_get :: "('k \<rightharpoonup> 'v) \<Rightarrow> 'k \<Rightarrow> 'v \<Rightarrow> 'v" where
  "dict_get m k d = (case m k of None \<Rightarrow> d | Some v \<Rightarrow> v)"

text \<open>\<^verbatim>\<open>k in d\<close>\<close>

definition dict_contains :: "'k \<Rightarrow> ('k \<rightharpoonup> 'v) \<Rightarrow> bool" where
  "dict_contains k d = (k \<in> dom d)"

section \<open>The process and the Kubernetes client library\<close>

text \<open>
  What the module reads of its process: \<^verbatim>\<open>os.environ\<close>, \<^verbatim>\<open>os.path.exists\<close> and
  \<^verbatim>\<open>os.path.expanduser\<close>. The last two belong to the operating system and are kept
  abstract.
\<close>

record os_state =
  environ :: "string \<rightharpoonup> string"
  path_exists :: "string \<Rightarrow> bool"
  expanduser :: "string \<Rightarrow> string"

text \<open>
  \<^verbatim>\<open>kubernetes.client.Configuration\<close>, with the attributes the module assigns.
  \<^verbatim>\<open>api_key\<close> and \<^verbatim>\<open>api_key_prefix\<close> are dictionaries. \<^verbatim>\<open>cert_file\<close> and
  \<^verbatim>\<open>key_file\<close> are the client certificate and its private key (lines 74-75 of the
  module fill them from \<^verbatim>\<open>KUBERNETES_CERT_FILE\<close> and \<^verbatim>\<open>KUBERNETES_KEY_FILE\<close>).
\<close>

record Configuration =
  debug :: bool
  host :: pyval
  verify_ssl :: bool
  cert_file :: pyval
  key_file :: pyval
  api_key :: "string \<rightharpoonup> pyval"
  api_key_prefix :: "string \<rightharpoonup> pyval"
  username :: pyval
  password :: pyval

text \<open>\<^verbatim>\<open>kubernetes.client.ApiClient(configuration)\<close>\<close>

datatype api_client = ApiClient Configuration

text \<open>
  The library calls the module makes. \<^verbatim>\<open>config.new_client_from_config()\<close> takes no
  argument and may raise on a malformed file; \<^verbatim>\<open>client.Configuration()\<close> returns a
  fresh configuration; the three listing calls are made with
  \<^verbatim>\<open>_preload_content=False\<close> and read, so each yields the body of the response.
  \<^verbatim>\<open>json.loads\<close> is the decoder.
\<close>

record kube =
  new_client_from_config :: "exn + api_client"
  new_Configuration :: Configuration
  list_namespace :: "api_client \<Rightarrow> exn + string"
  list_namespaced_pod :: "api_client \<Rightarrow> pyval \<Rightarrow> exn + string"
  list_namespaced_deployment :: "api_client \<Rightarrow> pyval \<Rightarrow> exn + string"
  json_loads :: "string \<Rightarrow> exn + pyval"

section \<open>The client factory\<close>

text \<open>Lines 20-23.\<close>

definition has_local_config_file :: "os_state \<Rightarrow> bool" where
  "has_local_config_file os =
     (let config_path = expanduser os (dict_get (environ os) ''KUBECONFIG'' ''~/.kube/config'')
      in path_exists os config_path)"

text \<open>Line 54, \<^verbatim>\<open>secrets = secrets or {}\<close>: \<^verbatim>\<open>None\<close> and the empty dictionary are the
  falsy arguments, and both give an empty dictionary.\<close>

definition or_empty :: "(string \<rightharpoonup> pyval) option \<Rightarrow> (string \<rightharpoonup> pyval)" where
  "or_empty secrets = (case secrets of None \<Rightarrow> Map.empty | Some d \<Rightarrow> d)"

text \<open>Lines 56-57: \<^verbatim>\<open>secrets.get(k, env.get(k, d))\<close>. The environment's values are strings.\<close>

definition lookup :: "(string \<rightharpoonup> pyval) \<Rightarrow> (string \<rightharpoonup> string) \<Rightarrow> string \<Rightarrow> pyval \<Rightarrow> pyval" where
  "lookup secrets env k d = dict_get secrets k (dict_get (map_option PyStr \<circ> env) k d)"

text \<open>Lines 26-80. \<^verbatim>\<open>x is not False\<close> holds of every value but the boolean
  \<^verbatim>\<open>False\<close> itself.\<close>

definition create_k8s_api_client ::
  "os_state \<Rightarrow> kube \<Rightarrow> (string \<rightharpoonup> pyval) option \<Rightarrow> exn + api_client" where
  "create_k8s_api_client os k secrets0 =
     (let env = environ os;
          secrets = or_empty secrets0
      in
      if has_local_config_file os then new_client_from_config k
      else
        let configuration = new_Configuration k;
            configuration = configuration\<lparr>debug := True\<rparr>;
            configuration = configuration\<lparr>host :=
              lookup secrets env ''KUBERNETES_HOST'' (PyStr ''http://localhost'')\<rparr>;
            configuration = configuration\<lparr>verify_ssl :=
              (lookup secrets env ''KUBERNETES_VERIFY_SSL'' (PyBool False) \<noteq> PyBool False)\<rparr>;
            configuration = configuration\<lparr>cert_file :=
              lookup secrets env ''KUBERNETES_CA_CERT_FILE'' PyNone\<rparr>;
            configuration =
              (if dict_contains ''KUBERNETES_API_KEY'' env
                  \<or> dict_contains ''KUBERNETES_API_KEY'' secrets then
                 let configuration = configuration\<lparr>api_key :=
                       (api_key configuration)(''authorization'' \<mapsto>
                          lookup secrets env ''KUBERNETES_API_KEY'' PyNone)\<rparr>
                 in configuration\<lparr>api_key_prefix :=
                       (api_key_prefix configuration)(''authorization'' \<mapsto>
                          lookup secrets env ''KUBERNETES_API_KEY_PREFIX'' (PyStr ''Bearer''))\<rparr>
               else if dict_contains ''KUBERNETES_CERT_FILE'' env
                  \<or> dict_contains ''KUBERNETES_CERT_FILE'' secrets then
                 let configuration = configuration\<lparr>cert_file :=
                       lookup secrets env ''KUBERNETES_CERT_FILE'' PyNone\<rparr>
                 in configuration\<lparr>key_file :=
                       lookup secrets env ''KUBERNETES_KEY_FILE'' PyNone\<rparr>
               else if dict_contains ''KUBERNETES_USERNAME'' env
                  \<or> dict_contains ''KUBERNETES_USERNAME'' secrets then
                 let configuration = configuration\<lparr>username :=
                       lookup secrets env ''KUBERNETES_USERNAME'' PyNone\<rparr>
                 in configuration\<lparr>password :=
                       lookup secrets env ''KUBERNETES_PASSWORD'' (PyStr '''')\<rparr>
               else configuration)
        in Inr (ApiClient configuration))"

section \<open>Discovery\<close>

text \<open>Sequencing of calls that may raise: the first exception ends the computation.\<close>

definition and_then :: "exn + 'a \<Rightarrow> ('a \<Rightarrow> exn + 'b) \<Rightarrow> exn + 'b" where
  "and_then r f = (case r of Inl e \<Rightarrow> Inl e | Inr x \<Rightarrow> f x)"

text \<open>\<^verbatim>\<open>x[k]\<close> for a string \<^verbatim>\<open>k\<close>: a dictionary gives the value or raises
  \<^verbatim>\<open>KeyError\<close>; every other value raises \<^verbatim>\<open>TypeError\<close>.\<close>

fun py_getitem :: "pyval \<Rightarrow> string \<Rightarrow> exn + pyval" where
  "py_getitem (PyDict kvs) k =
     (case map_of kvs k of None \<Rightarrow> Inl (KeyError k) | Some v \<Rightarrow> Inr v)"
| "py_getitem v k = Inl TypeError"

text \<open>The values a \<^verbatim>\<open>for\<close> loop draws from \<^verbatim>\<open>x\<close>: the elements of a list, the keys
  of a dictionary, the characters of a string; anything else raises \<^verbatim>\<open>TypeError\<close>.\<close>

fun py_iter :: "pyval \<Rightarrow> exn + pyval list" where
  "py_iter (PyList xs) = Inr xs"
| "py_iter (PyDict kvs) = Inr (map (\<lambda>kv. PyStr (fst kv)) kvs)"
| "py_iter (PyStr s) = Inr (map (\<lambda>c. PyStr [c]) s)"
| "py_iter v = Inl TypeError"

text \<open>The log the module writes through \<^verbatim>\<open>logzero.logger\<close>, oldest entry first.\<close>

datatype level = INFO | WARNING

type_synonym log = "(level \<times> string) list"

text \<open>\<^verbatim>\<open>ns["metadata"]["name"]\<close>\<close>

definition namespace_name :: "pyval \<Rightarrow> exn + pyval" where
  "namespace_name ns = and_then (py_getitem ns ''metadata'') (\<lambda>m. py_getitem m ''name'')"

text \<open>Lines 132-134 and 136-138: what one pass of the loop fetches for \<^verbatim>\<open>ns\<close>.\<close>

definition fetch_pods :: "kube \<Rightarrow> api_client \<Rightarrow> pyval \<Rightarrow> exn + pyval" where
  "fetch_pods k api ns =
     and_then (namespace_name ns) (\<lambda>name.
     and_then (list_namespaced_pod k api name) (\<lambda>ret.
     json_loads k ret))"

definition fetch_deployments :: "kube \<Rightarrow> api_client \<Rightarrow> pyval \<Rightarrow> exn + pyval" where
  "fetch_deployments k api ns =
     and_then (namespace_name ns) (\<lambda>name.
     and_then (list_namespaced_deployment k api name) (\<lambda>ret.
     json_loads k ret))"

text \<open>The body of the loop, lines 132-138, on the dictionary \<^verbatim>\<open>info\<close>.\<close>

definition explore_namespace ::
  "kube \<Rightarrow> api_client \<Rightarrow> (string \<rightharpoonup> pyval) \<Rightarrow> pyval \<Rightarrow> exn + (string \<rightharpoonup> pyval)" where
  "explore_namespace k api info ns =
     and_then (fetch_pods k api ns) (\<lambda>pods.
     let info = info(''pods'' \<mapsto> pods) in
     and_then (fetch_deployments k api ns) (\<lambda>deployments.
     let info = info(''deployments'' \<mapsto> deployments) in
     Inr info))"

text \<open>The loop of line 131.\<close>

fun explore_namespaces ::
  "kube \<Rightarrow> api_client \<Rightarrow> (string \<rightharpoonup> pyval) \<Rightarrow> pyval list \<Rightarrow> exn + (string \<rightharpoonup> pyval)" where
  "explore_namespaces k api info [] = Inr info"
| "explore_namespaces k api info (ns # rest) =
     (case explore_namespace k api info ns of
        Inl e \<Rightarrow> Inl e
      | Inr info' \<Rightarrow> explore_namespaces k api info' rest)"

text \<open>Lines 114-140. The result is the log written and either the exception raised or the
  value returned, where \<open>None\<close> is the bare \<^verbatim>\<open>return\<close> of line 121.\<close>

definition explore_kubernetes_system ::
  "os_state \<Rightarrow> kube \<Rightarrow> log \<times> (exn + (string \<rightharpoonup> pyval) option)" where
  "explore_kubernetes_system os k =
     (let log = [(INFO, ''Discovering Kubernetes system'')] in
      if \<not> has_local_config_file os then
        (log @ [(WARNING, ''Could not locate the default kubeconfig file'')], Inr None)
      else
        (log,
         and_then (new_client_from_config k) (\<lambda>api.
         and_then (list_namespace k api) (\<lambda>namespaces.
         and_then (json_loads k namespaces) (\<lambda>doc.
         and_then (py_getitem doc ''items'') (\<lambda>items.
         and_then (py_iter items) (\<lambda>nss.
         and_then (explore_namespaces k api Map.empty nss) (\<lambda>info.
         Inr (Some info)))))))))"

text \<open>
  chaoslib, the host's library. \<^verbatim>\<open>initialize_discovery_result\<close> builds the discovery
  dictionary from an extension's name, version and type; the module reads and writes its
  \<^verbatim>\<open>"activities"\<close> and \<^verbatim>\<open>"system"\<close> entries only, and every other entry stays in
  the record's extension. \<^verbatim>\<open>discover_actions\<close> and \<^verbatim>\<open>discover_probes\<close> import a
  module by name and may raise.
\<close>

record 'a Discovery =
  activities :: "'a list"
  system :: "(string \<rightharpoonup> pyval) option"

record ('a, 'm) chaoslib =
  initialize_discovery_result :: "string \<Rightarrow> string \<Rightarrow> string \<Rightarrow> ('a, 'm) Discovery_scheme"
  discover_actions :: "string \<Rightarrow> exn + 'a list"
  discover_probes :: "string \<Rightarrow> exn + 'a list"

text \<open>Line 17.\<close>

definition version :: string where
  "version = ''0.11.0''"

text \<open>Lines 102-111.\<close>

definition load_exported_activities :: "('a, 'm) chaoslib \<Rightarrow> exn + 'a list" where
  "load_exported_activities lib =
     (let activities = [] in
      and_then (discover_actions lib ''chaosk8s.actions'') (\<lambda>found.
      let activities = activities @ found in
      and_then (discover_probes lib ''chaosk8s.probes'') (\<lambda>found.
      let activities = activities @ found in
      and_then (discover_actions lib ''chaosk8s.pod.actions'') (\<lambda>found.
      let activities = activities @ found in
      and_then (discover_probes lib ''chaosk8s.pod.probes'') (\<lambda>found.
      let activities = activities @ found in
      Inr activities)))))"

text \<open>Lines 83-96.\<close>

definition discover ::
  "os_state \<Rightarrow> kube \<Rightarrow> ('a, 'm) chaoslib \<Rightarrow> bool \<Rightarrow> log \<times> (exn + ('a, 'm) Discovery_scheme)" where
  "discover os k lib discover_system =
     (let log = [(INFO, ''Discovering capabilities from chaostoolkit-kubernetes'')];
          discovery = initialize_discovery_result lib ''chaostoolkit-kubernetes'' version ''kubernetes''
      in
      case load_exported_activities lib of
        Inl e \<Rightarrow> (log, Inl e)
      | Inr found \<Rightarrow>
          let discovery = discovery\<lparr>activities := activities discovery @ found\<rparr> in
          if discover_system then
            (case explore_kubernetes_system os k of
               (log', Inl e) \<Rightarrow> (log @ log', Inl e)
             | (log', Inr info) \<Rightarrow> (log @ log', Inr (discovery\<lparr>system := info\<rparr>)))
          else (log, Inr discovery))"

section \<open>Auxiliary notions and a sample world\<close>

text \<open>The test of lines 69, 73 and 76: \<^verbatim>\<open>k in env or k in secrets\<close>.\<close>

definition present :: "os_state \<Rightarrow> (string \<rightharpoonup> pyval) option \<Rightarrow> string \<Rightarrow> bool" where
  "present os secrets k \<longleftrightarrow>
     dict_contains k (environ os) \<or> dict_contains k (or_empty secrets)"

text \<open>The nine keys the factory looks up (lines 64-78).\<close>

definition credential_keys :: "string list" where
  "credential_keys =
     [''KUBERNETES_HOST'', ''KUBERNETES_VERIFY_SSL'', ''KUBERNETES_CA_CERT_FILE'',
      ''KUBERNETES_API_KEY'', ''KUBERNETES_API_KEY_PREFIX'', ''KUBERNETES_CERT_FILE'',
      ''KUBERNETES_KEY_FILE'', ''KUBERNETES_USERNAME'', ''KUBERNETES_PASSWORD'']"

text \<open>The call returned a value (it did not raise).\<close>

definition returned :: "exn + 'a \<Rightarrow> bool" where
  "returned r = (case r of Inl e \<Rightarrow> False | Inr x \<Rightarrow> True)"

text \<open>
  A sample world, for evaluating the module on concrete inputs: the attribute values a
  fresh \<^verbatim>\<open>client.Configuration()\<close> has in the client library, a file system given by
  the list of its files (with \<^verbatim>\<open>/root\<close> as the home directory), a cluster with the two
  namespaces \<^verbatim>\<open>default\<close> and \<^verbatim>\<open>kube-system\<close>, and a chaoslib whose discovery record
  keeps the extension's name, version and type.
\<close>

definition default_Configuration :: Configuration where
  "default_Configuration =
     \<lparr>debug = False, host = PyStr ''https://localhost'', verify_ssl = True,
      cert_file = PyNone, key_file = PyNone, api_key = Map.empty,
      api_key_prefix = Map.empty, username = PyStr '''', password = PyStr ''''\<rparr>"

definition example_os :: "string list \<Rightarrow> (string \<rightharpoonup> string) \<Rightarrow> os_state" where
  "example_os files env =
     \<lparr>environ = env,
      path_exists = (\<lambda>p. p \<in> set files),
      expanduser = (\<lambda>p. if take 1 p = ''~'' then ''/root'' @ drop 1 p else p)\<rparr>"

definition example_namespace :: "string \<Rightarrow> pyval" where
  "example_namespace n = PyDict [(''metadata'', PyDict [(''name'', PyStr n)])]"

definition example_documents :: "(string \<times> pyval) list" where
  "example_documents =
     [(''namespaces'',
         PyDict [(''items'', PyList [example_namespace ''default'', example_namespace ''kube-system''])]),
      (''pods/default'', PyDict [(''items'', PyList [PyStr ''web-1'', PyStr ''web-2''])]),
      (''deployments/default'', PyDict [(''items'', PyList [PyStr ''web''])]),
      (''pods/kube-system'', PyDict [(''items'', PyList [PyStr ''dns-1''])]),
      (''deployments/kube-system'', PyDict [(''items'', PyList [PyStr ''dns''])])]"

definition example_kube :: kube where
  "example_kube =
     \<lparr>new_client_from_config =
        Inr (ApiClient (default_Configuration\<lparr>host := PyStr ''https://cluster.example:6443''\<rparr>)),
      new_Configuration = default_Configuration,
      list_namespace = (\<lambda>api. Inr ''namespaces''),
      list_namespaced_pod =
        (\<lambda>api name. case name of PyStr n \<Rightarrow> Inr (''pods/'' @ n) | _ \<Rightarrow> Inl (Raised ''ApiException'')),
      list_namespaced_deployment =
        (\<lambda>api name. case name of PyStr n \<Rightarrow> Inr (''deployments/'' @ n)
           | _ \<Rightarrow> Inl (Raised ''ApiException'')),
      json_loads =
        (\<lambda>body. case map_of example_documents body of
           None \<Rightarrow> Inl (Raised ''JSONDecodeError'') | Some v \<Rightarrow> Inr v)\<rparr>"

record 'a named_Discovery = "'a Discovery" +
  extension_name :: string
  extension_version :: string
  target :: string

definition example_chaoslib :: "(string, \<lparr>extension_name :: string, extension_version :: string, target :: string\<rparr>) chaoslib" where
  "example_chaoslib =
     \<lparr>initialize_discovery_result = (\<lambda>name version type.
        \<lparr>activities = [], system = None,
         extension_name = name, extension_version = version, target = type\<rparr>),
      discover_actions = (\<lambda>module. Inr [module @ ''.an_action'']),
      discover_probes = (\<lambda>module. Inr [module @ ''.a_probe''])\<rparr>"

section \<open>Properties of the client factory\<close>

lemma api_key_mode:
  assumes "\<not> has_local_config_file os" and "present os secrets ''KUBERNETES_API_KEY''"
  shows "create_k8s_api_client os k secrets = Inr (ApiClient (new_Configuration k
       \<lparr>debug := True,
        host := lookup (or_empty secrets) (environ os) ''KUBERNETES_HOST'' (PyStr ''http://localhost''),
        verify_ssl :=
          lookup (or_empty secrets) (environ os) ''KUBERNETES_VERIFY_SSL'' (PyBool False) \<noteq> PyBool False,
        cert_file := lookup (or_empty secrets) (environ os) ''KUBERNETES_CA_CERT_FILE'' PyNone,
        api_key := (api_key (new_Configuration k))(''authorization'' \<mapsto>
            lookup (or_empty secrets) (environ os) ''KUBERNETES_API_KEY'' PyNone),
        api_key_prefix := (api_key_prefix (new_Configuration k))(''authorization'' \<mapsto>
            lookup (or_empty secrets) (environ os) ''KUBERNETES_API_KEY_PREFIX'' (PyStr ''Bearer''))\<rparr>))"
  using assms by (auto simp: create_k8s_api_client_def Let_def present_def)

lemma client_certificate_mode:
  assumes "\<not> has_local_config_file os" and "\<not> present os secrets ''KUBERNETES_API_KEY''"
    and "present os secrets ''KUBERNETES_CERT_FILE''"
  shows "create_k8s_api_client os k secrets = Inr (ApiClient (new_Configuration k
       \<lparr>debug := True,
        host := lookup (or_empty secrets) (environ os) ''KUBERNETES_HOST'' (PyStr ''http://localhost''),
        verify_ssl :=
          lookup (or_empty secrets) (environ os) ''KUBERNETES_VERIFY_SSL'' (PyBool False) \<noteq> PyBool False,
        cert_file := lookup (or_empty secrets) (environ os) ''KUBERNETES_CERT_FILE'' PyNone,
        key_file := lookup (or_empty secrets) (environ os) ''KUBERNETES_KEY_FILE'' PyNone\<rparr>))"
  using assms by (auto simp: create_k8s_api_client_def Let_def present_def)

lemma username_password_mode:
  assumes "\<not> has_local_config_file os" and "\<not> present os secrets ''KUBERNETES_API_KEY''"
    and "\<not> present os secrets ''KUBERNETES_CERT_FILE''"
    and "present os secrets ''KUBERNETES_USERNAME''"
  shows "create_k8s_api_client os k secrets = Inr (ApiClient (new_Configuration k
       \<lparr>debug := True,
        host := lookup (or_empty secrets) (environ os) ''KUBERNETES_HOST'' (PyStr ''http://localhost''),
        verify_ssl :=
          lookup (or_empty secrets) (environ os) ''KUBERNETES_VERIFY_SSL'' (PyBool False) \<noteq> PyBool False,
        cert_file := lookup (or_empty secrets) (environ os) ''KUBERNETES_CA_CERT_FILE'' PyNone,
        username := lookup (or_empty secrets) (environ os) ''KUBERNETES_USERNAME'' PyNone,
        password := lookup (or_empty secrets) (environ os) ''KUBERNETES_PASSWORD'' (PyStr [])\<rparr>))"
  using assms by (auto simp: create_k8s_api_client_def Let_def present_def)

lemma anonymous_mode:
  assumes "\<not> has_local_config_file os" and "\<not> present os secrets ''KUBERNETES_API_KEY''"
    and "\<not> present os secrets ''KUBERNETES_CERT_FILE''"
    and "\<not> present os secrets ''KUBERNETES_USERNAME''"
  shows "create_k8s_api_client os k secrets = Inr (ApiClient (new_Configuration k
       \<lparr>debug := True,
        host := lookup (or_empty secrets) (environ os) ''KUBERNETES_HOST'' (PyStr ''http://localhost''),
        verify_ssl :=
          lookup (or_empty secrets) (environ os) ''KUBERNETES_VERIFY_SSL'' (PyBool False) \<noteq> PyBool False,
        cert_file := lookup (or_empty secrets) (environ os) ''KUBERNETES_CA_CERT_FILE'' PyNone\<rparr>))"
  using assms by (auto simp: create_k8s_api_client_def Let_def present_def)

text \<open>Whatever the mode, the fields assigned before the mode is chosen (lines 63-66).\<close>

lemma create_without_local_config:
  assumes "\<not> has_local_config_file os"
  obtains c where
    "create_k8s_api_client os k secrets = Inr (ApiClient c)"
    "debug c"
    "host c = lookup (or_empty secrets) (environ os) ''KUBERNETES_HOST'' (PyStr ''http://localhost'')"
    "verify_ssl c \<longleftrightarrow>
       lookup (or_empty secrets) (environ os) ''KUBERNETES_VERIFY_SSL'' (PyBool False) \<noteq> PyBool False"
proof -
  consider (api) "present os secrets ''KUBERNETES_API_KEY''"
    | (cert) "\<not> present os secrets ''KUBERNETES_API_KEY''" "present os secrets ''KUBERNETES_CERT_FILE''"
    | (user) "\<not> present os secrets ''KUBERNETES_API_KEY''" "\<not> present os secrets ''KUBERNETES_CERT_FILE''"
        "present os secrets ''KUBERNETES_USERNAME''"
    | (none) "\<not> present os secrets ''KUBERNETES_API_KEY''" "\<not> present os secrets ''KUBERNETES_CERT_FILE''"
        "\<not> present os secrets ''KUBERNETES_USERNAME''"
    by blast
  then show thesis
  proof cases
    case api
    show ?thesis by (rule that [OF api_key_mode [OF assms api]]) simp_all
  next
    case cert
    show ?thesis by (rule that [OF client_certificate_mode [OF assms cert]]) simp_all
  next
    case user
    show ?thesis by (rule that [OF username_password_mode [OF assms user]]) simp_all
  next
    case none
    show ?thesis by (rule that [OF anonymous_mode [OF assms none]]) simp_all
  qed
qed

lemma lookup_cases:
  "lookup s env k d =
     (case s k of Some v \<Rightarrow> v | None \<Rightarrow> (case env k of Some x \<Rightarrow> PyStr x | None \<Rightarrow> d))"
  by (simp add: lookup_def dict_get_def split: option.splits)

text \<open>Facts about the sample world.\<close>

lemma example_os_environ: "environ (example_os files env) = env"
  by (simp add: example_os_def)

lemma example_os_no_file: "\<not> has_local_config_file (example_os [] env)"
  by (simp add: has_local_config_file_def example_os_def)

lemma example_os_home_file:
  "env ''KUBECONFIG'' = None \<Longrightarrow> has_local_config_file (example_os [''/root/.kube/config''] env)"
  by (simp add: has_local_config_file_def example_os_def dict_get_def)

lemma example_kube_new_Configuration: "new_Configuration example_kube = default_Configuration"
  by (simp add: example_kube_def)

lemma example_fetch_pods:
  "fetch_pods example_kube api (example_namespace n) =
     (case map_of example_documents (''pods/'' @ n) of
        None \<Rightarrow> Inl (Raised ''JSONDecodeError'') | Some v \<Rightarrow> Inr v)"
  by (simp add: fetch_pods_def namespace_name_def and_then_def example_namespace_def example_kube_def)

lemma example_fetch_deployments:
  "fetch_deployments example_kube api (example_namespace n) =
     (case map_of example_documents (''deployments/'' @ n) of
        None \<Rightarrow> Inl (Raised ''JSONDecodeError'') | Some v \<Rightarrow> Inr v)"
  by (simp add: fetch_deployments_def namespace_name_def and_then_def example_namespace_def
      example_kube_def)

text \<open>
  C1. When a kubeconfig file exists at the path named by \<^verbatim>\<open>KUBECONFIG\<close> (or at
  \<^verbatim>\<open>~/.kube/config\<close> when the variable is unset), \<^verbatim>\<open>create_k8s_api_client\<close> returns
  what the standard loader returns, for every secrets argument; and it returns the same
  for every other secrets argument and every environment that differs from the given
  one on credential variables only. So neither the secrets nor a credential variable
  has any influence on the result.
\<close>

theorem local_config_file_wins:
  assumes "has_local_config_file os"
  shows "create_k8s_api_client os k secrets = new_client_from_config k \<and>
         (\<forall>env' secrets'.
            (\<forall>name. name \<notin> set credential_keys \<longrightarrow> env' name = environ os name) \<longrightarrow>
            create_k8s_api_client (os\<lparr>environ := env'\<rparr>) k secrets' = new_client_from_config k)"
proof -
  have same: "has_local_config_file (os\<lparr>environ := env'\<rparr>)"
    if "\<forall>name. name \<notin> set credential_keys \<longrightarrow> env' name = environ os name" for env'
  proof -
    have "''KUBECONFIG'' \<notin> set credential_keys"
      by (simp add: credential_keys_def)
    with that have "env' ''KUBECONFIG'' = environ os ''KUBECONFIG''"
      by blast
    with assms show ?thesis
      by (simp add: has_local_config_file_def dict_get_def)
  qed
  show ?thesis
    using assms same by (simp add: create_k8s_api_client_def)
qed

theorem local_config_file_wins_witness:
  "has_local_config_file (example_os [''/root/.kube/config'']
      [''KUBERNETES_HOST'' \<mapsto> ''https://10.0.0.1:6443'', ''KUBERNETES_API_KEY'' \<mapsto> ''abc'']) \<and>
   create_k8s_api_client (example_os [''/root/.kube/config'']
      [''KUBERNETES_HOST'' \<mapsto> ''https://10.0.0.1:6443'', ''KUBERNETES_API_KEY'' \<mapsto> ''abc''])
      example_kube (Some [''KUBERNETES_USERNAME'' \<mapsto> PyStr ''u''])
     = Inr (ApiClient (default_Configuration\<lparr>host := PyStr ''https://cluster.example:6443''\<rparr>)) \<and>
   create_k8s_api_client (example_os [''/root/.kube/config''] Map.empty) example_kube None
     = Inr (ApiClient (default_Configuration\<lparr>host := PyStr ''https://cluster.example:6443''\<rparr>))"
proof -
  let ?env = "[''KUBERNETES_HOST'' \<mapsto> ''https://10.0.0.1:6443'', ''KUBERNETES_API_KEY'' \<mapsto> ''abc'']"
  let ?os = "example_os [''/root/.kube/config''] ?env"
  have h: "has_local_config_file ?os"
    by (simp add: example_os_home_file)
  note w = local_config_file_wins [OF h, of example_kube "Some [''KUBERNETES_USERNAME'' \<mapsto> PyStr ''u'']"]
  have other: "?os\<lparr>environ := Map.empty\<rparr> = example_os [''/root/.kube/config''] Map.empty"
    by (simp add: example_os_def)
  have "create_k8s_api_client (?os\<lparr>environ := Map.empty\<rparr>) example_kube None
      = new_client_from_config example_kube"
    by (rule w [THEN conjunct2, rule_format]) (simp add: example_os_environ credential_keys_def)
  with w h other show ?thesis
    by (simp add: example_kube_def)
qed

text \<open>
  C2. \<^verbatim>\<open>lookup(k, d)\<close>, for every key \<^verbatim>\<open>k\<close> (the nine the resolver uses among them):
  a value the secrets dictionary holds for \<^verbatim>\<open>k\<close> is returned whatever the environment
  holds; when the secrets have no such key the environment's value is returned; when
  neither has it, the default \<^verbatim>\<open>d\<close>.
\<close>

theorem lookup_precedence:
  "(\<forall>v. or_empty secrets k = Some v \<longrightarrow> lookup (or_empty secrets) env k d = v) \<and>
   (\<forall>x. or_empty secrets k = None \<and> env k = Some x \<longrightarrow>
          lookup (or_empty secrets) env k d = PyStr x) \<and>
   (or_empty secrets k = None \<and> env k = None \<longrightarrow> lookup (or_empty secrets) env k d = d)"
  by (simp add: lookup_def dict_get_def)

theorem lookup_precedence_witness:
  "lookup (or_empty (Some [''KUBERNETES_HOST'' \<mapsto> PyStr ''https://from.bundle'']))
      [''KUBERNETES_HOST'' \<mapsto> ''https://from.env'', ''KUBERNETES_API_KEY'' \<mapsto> ''abc'']
      ''KUBERNETES_HOST'' (PyStr ''http://localhost'') = PyStr ''https://from.bundle'' \<and>
   lookup (or_empty (Some [''KUBERNETES_HOST'' \<mapsto> PyStr ''https://from.bundle'']))
      [''KUBERNETES_HOST'' \<mapsto> ''https://from.env'', ''KUBERNETES_API_KEY'' \<mapsto> ''abc'']
      ''KUBERNETES_API_KEY'' PyNone = PyStr ''abc'' \<and>
   lookup (or_empty (Some [''KUBERNETES_HOST'' \<mapsto> PyStr ''https://from.bundle'']))
      [''KUBERNETES_HOST'' \<mapsto> ''https://from.env'', ''KUBERNETES_API_KEY'' \<mapsto> ''abc'']
      ''KUBERNETES_API_KEY_PREFIX'' (PyStr ''Bearer'') = PyStr ''Bearer''"
  using
    lookup_precedence [of "Some [''KUBERNETES_HOST'' \<mapsto> PyStr ''https://from.bundle'']"
      "''KUBERNETES_HOST''"
      "[''KUBERNETES_HOST'' \<mapsto> ''https://from.env'', ''KUBERNETES_API_KEY'' \<mapsto> ''abc'']"
      "PyStr ''http://localhost''"]
    lookup_precedence [of "Some [''KUBERNETES_HOST'' \<mapsto> PyStr ''https://from.bundle'']"
      "''KUBERNETES_API_KEY''"
      "[''KUBERNETES_HOST'' \<mapsto> ''https://from.env'', ''KUBERNETES_API_KEY'' \<mapsto> ''abc'']"
      PyNone]
    lookup_precedence [of "Some [''KUBERNETES_HOST'' \<mapsto> PyStr ''https://from.bundle'']"
      "''KUBERNETES_API_KEY_PREFIX''"
      "[''KUBERNETES_HOST'' \<mapsto> ''https://from.env'', ''KUBERNETES_API_KEY'' \<mapsto> ''abc'']"
      "PyStr ''Bearer''"]
  by (simp add: or_empty_def)

text \<open>
  C4. In a run without a local config file, \<^verbatim>\<open>verify_ssl\<close> is false when
  \<^verbatim>\<open>KUBERNETES_VERIFY_SSL\<close> is in neither the secrets nor the environment, and true when
  the key is present with a value other than the boolean \<^verbatim>\<open>False\<close>: a secret of any
  other value, or, the secrets lacking the key, any value of the environment (always a
  string). The boolean \<^verbatim>\<open>False\<close> as the secret is the one value that disables it.
\<close>

theorem verify_ssl_unset_means_no:
  assumes "\<not> has_local_config_file os"
  shows "\<exists>c. create_k8s_api_client os k secrets = Inr (ApiClient c) \<and>
           (or_empty secrets ''KUBERNETES_VERIFY_SSL'' = None \<and>
            environ os ''KUBERNETES_VERIFY_SSL'' = None \<longrightarrow> \<not> verify_ssl c) \<and>
           (\<forall>v. or_empty secrets ''KUBERNETES_VERIFY_SSL'' = Some v \<and> v \<noteq> PyBool False
              \<longrightarrow> verify_ssl c) \<and>
           (\<forall>x. or_empty secrets ''KUBERNETES_VERIFY_SSL'' = None \<and>
                environ os ''KUBERNETES_VERIFY_SSL'' = Some x \<longrightarrow> verify_ssl c) \<and>
           (or_empty secrets ''KUBERNETES_VERIFY_SSL'' = Some (PyBool False) \<longrightarrow> \<not> verify_ssl c)"
proof -
  obtain c where c: "create_k8s_api_client os k secrets = Inr (ApiClient c)"
    and v: "verify_ssl c \<longleftrightarrow>
       lookup (or_empty secrets) (environ os) ''KUBERNETES_VERIFY_SSL'' (PyBool False) \<noteq> PyBool False"
    using create_without_local_config [OF assms] by metis
  from v have "or_empty secrets ''KUBERNETES_VERIFY_SSL'' = None \<and>
      environ os ''KUBERNETES_VERIFY_SSL'' = None \<longrightarrow> \<not> verify_ssl c"
    by (simp add: lookup_cases)
  moreover from v have "\<forall>v. or_empty secrets ''KUBERNETES_VERIFY_SSL'' = Some v \<and> v \<noteq> PyBool False
      \<longrightarrow> verify_ssl c"
    by (simp add: lookup_cases)
  moreover from v have "\<forall>x. or_empty secrets ''KUBERNETES_VERIFY_SSL'' = None \<and>
      environ os ''KUBERNETES_VERIFY_SSL'' = Some x \<longrightarrow> verify_ssl c"
    by (simp add: lookup_cases)
  moreover from v have
    "or_empty secrets ''KUBERNETES_VERIFY_SSL'' = Some (PyBool False) \<longrightarrow> \<not> verify_ssl c"
    by (simp add: lookup_cases)
  ultimately show ?thesis using c by blast
qed

theorem verify_ssl_unset_means_no_witness:
  "(\<exists>c. create_k8s_api_client (example_os [] Map.empty) example_kube None = Inr (ApiClient c) \<and>
        \<not> verify_ssl c) \<and>
   (\<exists>c. create_k8s_api_client (example_os [] [''KUBERNETES_VERIFY_SSL'' \<mapsto> ''false''])
          example_kube None = Inr (ApiClient c) \<and> verify_ssl c) \<and>
   (\<exists>c. create_k8s_api_client (example_os [] Map.empty) example_kube
          (Some [''KUBERNETES_VERIFY_SSL'' \<mapsto> PyBool True]) = Inr (ApiClient c) \<and> verify_ssl c) \<and>
   (\<exists>c. create_k8s_api_client (example_os [] [''KUBERNETES_VERIFY_SSL'' \<mapsto> ''true''])
          example_kube (Some [''KUBERNETES_VERIFY_SSL'' \<mapsto> PyBool False])
        = Inr (ApiClient c) \<and> \<not> verify_ssl c)"
proof -
  have no_file: "\<not> has_local_config_file (example_os [] env)" for env
    by (simp add: has_local_config_file_def example_os_def)
  show ?thesis
    using
      verify_ssl_unset_means_no [OF no_file, of Map.empty example_kube None]
      verify_ssl_unset_means_no [OF no_file, of "[''KUBERNETES_VERIFY_SSL'' \<mapsto> ''false'']"
        example_kube None]
      verify_ssl_unset_means_no [OF no_file, of Map.empty example_kube
        "Some [''KUBERNETES_VERIFY_SSL'' \<mapsto> PyBool True]"]
      verify_ssl_unset_means_no [OF no_file, of "[''KUBERNETES_VERIFY_SSL'' \<mapsto> ''true'']"
        example_kube "Some [''KUBERNETES_VERIFY_SSL'' \<mapsto> PyBool False]"]
    by (simp add: or_empty_def example_os_def)
qed

text \<open>
  C10. In a run without a local config file the configuration's \<^verbatim>\<open>debug\<close> flag is
  set, whatever the secrets and the environment are.
\<close>

theorem debug_always_on:
  assumes "\<not> has_local_config_file os"
  shows "\<exists>c. create_k8s_api_client os k secrets = Inr (ApiClient c) \<and> debug c"
  using create_without_local_config [OF assms] by metis

theorem debug_always_on_witness:
  "\<exists>c. create_k8s_api_client (example_os [] [''KUBERNETES_USERNAME'' \<mapsto> ''admin''])
          example_kube (Some [''KUBERNETES_PASSWORD'' \<mapsto> PyStr ''secret''])
        = Inr (ApiClient c) \<and> debug c"
proof -
  have "\<not> has_local_config_file (example_os [] [''KUBERNETES_USERNAME'' \<mapsto> ''admin''])"
    by (simp add: has_local_config_file_def example_os_def dict_get_def)
  then show ?thesis
    by (rule debug_always_on)
qed

text \<open>
  C7. The scenario of the specification: no file at \<^verbatim>\<open>~/.kube/config\<close>, no secrets (none
  passed, or an empty dictionary), and the environment
  \<^verbatim>\<open>{KUBERNETES_HOST: "https://10.0.0.1:6443", KUBERNETES_API_KEY: "abc"}\<close>. The
  configuration has that host, does not verify SSL, and carries the API key \<^verbatim>\<open>abc\<close>
  with the prefix \<^verbatim>\<open>Bearer\<close>; \<^verbatim>\<open>cert_file\<close> is \<^verbatim>\<open>None\<close> and the key file, user
  name and password are those of a fresh configuration. With an empty environment the
  host is \<^verbatim>\<open>http://localhost\<close>.
\<close>

theorem scenario_api_key_from_environment:
  assumes "\<not> path_exists os (expanduser os ''~/.kube/config'')"
    and "secrets = None \<or> secrets = Some Map.empty"
  shows "(environ os = [''KUBERNETES_HOST'' \<mapsto> ''https://10.0.0.1:6443'',
                        ''KUBERNETES_API_KEY'' \<mapsto> ''abc''] \<longrightarrow>
            (\<exists>c. create_k8s_api_client os k secrets = Inr (ApiClient c) \<and>
               host c = PyStr ''https://10.0.0.1:6443'' \<and>
               \<not> verify_ssl c \<and>
               api_key c = (api_key (new_Configuration k))(''authorization'' \<mapsto> PyStr ''abc'') \<and>
               api_key_prefix c =
                 (api_key_prefix (new_Configuration k))(''authorization'' \<mapsto> PyStr ''Bearer'') \<and>
               cert_file c = PyNone \<and>
               key_file c = key_file (new_Configuration k) \<and>
               username c = username (new_Configuration k) \<and>
               password c = password (new_Configuration k))) \<and>
         (environ os = Map.empty \<longrightarrow>
            (\<exists>c. create_k8s_api_client os k secrets = Inr (ApiClient c) \<and>
               host c = PyStr ''http://localhost''))"
proof (intro conjI impI)
  assume env: "environ os = [''KUBERNETES_HOST'' \<mapsto> ''https://10.0.0.1:6443'',
                        ''KUBERNETES_API_KEY'' \<mapsto> ''abc'']"
  from assms(1) env have no_file: "\<not> has_local_config_file os"
    by (simp add: has_local_config_file_def dict_get_def)
  from env have key: "present os secrets ''KUBERNETES_API_KEY''"
    by (simp add: present_def dict_contains_def)
  from assms(2) have s: "or_empty secrets = Map.empty"
    by (auto simp: or_empty_def)
  show "\<exists>c. create_k8s_api_client os k secrets = Inr (ApiClient c) \<and>
               host c = PyStr ''https://10.0.0.1:6443'' \<and>
               \<not> verify_ssl c \<and>
               api_key c = (api_key (new_Configuration k))(''authorization'' \<mapsto> PyStr ''abc'') \<and>
               api_key_prefix c =
                 (api_key_prefix (new_Configuration k))(''authorization'' \<mapsto> PyStr ''Bearer'') \<and>
               cert_file c = PyNone \<and>
               key_file c = key_file (new_Configuration k) \<and>
               username c = username (new_Configuration k) \<and>
               password c = password (new_Configuration k)"
    unfolding api_key_mode [OF no_file key]
    by (simp add: s env lookup_cases)
next
  assume env: "environ os = Map.empty"
  from assms(1) env have no_file: "\<not> has_local_config_file os"
    by (simp add: has_local_config_file_def dict_get_def)
  from assms(2) have s: "or_empty secrets = Map.empty"
    by (auto simp: or_empty_def)
  obtain c where "create_k8s_api_client os k secrets = Inr (ApiClient c)"
    and "host c = lookup (or_empty secrets) (environ os) ''KUBERNETES_HOST'' (PyStr ''http://localhost'')"
    using create_without_local_config [OF no_file] by metis
  then show "\<exists>c. create_k8s_api_client os k secrets = Inr (ApiClient c) \<and>
               host c = PyStr ''http://localhost''"
    by (simp add: s env lookup_cases)
qed

theorem scenario_api_key_from_environment_witness:
  "(\<exists>c. create_k8s_api_client
           (example_os [] [''KUBERNETES_HOST'' \<mapsto> ''https://10.0.0.1:6443'',
                           ''KUBERNETES_API_KEY'' \<mapsto> ''abc''])
           example_kube None = Inr (ApiClient c) \<and>
        host c = PyStr ''https://10.0.0.1:6443'' \<and>
        \<not> verify_ssl c \<and>
        api_key c = [''authorization'' \<mapsto> PyStr ''abc''] \<and>
        api_key_prefix c = [''authorization'' \<mapsto> PyStr ''Bearer''] \<and>
        cert_file c = PyNone \<and> key_file c = PyNone \<and>
        username c = PyStr '''' \<and> password c = PyStr '''') \<and>
   (\<exists>c. create_k8s_api_client (example_os [] Map.empty) example_kube (Some Map.empty)
           = Inr (ApiClient c) \<and>
        host c = PyStr ''http://localhost'')"
proof -
  have no_file: "\<not> path_exists (example_os [] env) (expanduser (example_os [] env) ''~/.kube/config'')"
    for env
    by (simp add: example_os_def)
  show ?thesis
    using
      scenario_api_key_from_environment [OF no_file, of None
        "[''KUBERNETES_HOST'' \<mapsto> ''https://10.0.0.1:6443'', ''KUBERNETES_API_KEY'' \<mapsto> ''abc'']"
        example_kube]
      scenario_api_key_from_environment [OF no_file, of "Some Map.empty" Map.empty example_kube]
    by (simp add: example_os_environ example_kube_new_Configuration default_Configuration_def)
qed

section \<open>The authentication mode\<close>

text \<open>
  The mode is chosen by the presence of a key in the environment or the secrets, in the
  order API key, client certificate, user name. Of \<^verbatim>\<open>api_key\<close>,
  \<^verbatim>\<open>api_key_prefix\<close>, \<^verbatim>\<open>key_file\<close>, \<^verbatim>\<open>username\<close> and \<^verbatim>\<open>password\<close>, only
  those of the chosen mode are assigned, the others being those of a fresh
  configuration. (\<^verbatim>\<open>cert_file\<close> is left out here; the last section is about it.)
\<close>

theorem authentication_mode_priority:
  assumes "\<not> has_local_config_file os"
  shows "\<exists>c. create_k8s_api_client os k secrets = Inr (ApiClient c) \<and>
    api_key c =
      (if present os secrets ''KUBERNETES_API_KEY''
       then (api_key (new_Configuration k))(''authorization'' \<mapsto>
              lookup (or_empty secrets) (environ os) ''KUBERNETES_API_KEY'' PyNone)
       else api_key (new_Configuration k)) \<and>
    api_key_prefix c =
      (if present os secrets ''KUBERNETES_API_KEY''
       then (api_key_prefix (new_Configuration k))(''authorization'' \<mapsto>
              lookup (or_empty secrets) (environ os) ''KUBERNETES_API_KEY_PREFIX'' (PyStr ''Bearer''))
       else api_key_prefix (new_Configuration k)) \<and>
    key_file c =
      (if present os secrets ''KUBERNETES_API_KEY'' then key_file (new_Configuration k)
       else if present os secrets ''KUBERNETES_CERT_FILE''
       then lookup (or_empty secrets) (environ os) ''KUBERNETES_KEY_FILE'' PyNone
       else key_file (new_Configuration k)) \<and>
    username c =
      (if present os secrets ''KUBERNETES_API_KEY'' then username (new_Configuration k)
       else if present os secrets ''KUBERNETES_CERT_FILE'' then username (new_Configuration k)
       else if present os secrets ''KUBERNETES_USERNAME''
       then lookup (or_empty secrets) (environ os) ''KUBERNETES_USERNAME'' PyNone
       else username (new_Configuration k)) \<and>
    password c =
      (if present os secrets ''KUBERNETES_API_KEY'' then password (new_Configuration k)
       else if present os secrets ''KUBERNETES_CERT_FILE'' then password (new_Configuration k)
       else if present os secrets ''KUBERNETES_USERNAME''
       then lookup (or_empty secrets) (environ os) ''KUBERNETES_PASSWORD'' (PyStr [])
       else password (new_Configuration k))"
proof -
  consider (api) "present os secrets ''KUBERNETES_API_KEY''"
    | (cert) "\<not> present os secrets ''KUBERNETES_API_KEY''" "present os secrets ''KUBERNETES_CERT_FILE''"
    | (user) "\<not> present os secrets ''KUBERNETES_API_KEY''" "\<not> present os secrets ''KUBERNETES_CERT_FILE''"
        "present os secrets ''KUBERNETES_USERNAME''"
    | (none) "\<not> present os secrets ''KUBERNETES_API_KEY''" "\<not> present os secrets ''KUBERNETES_CERT_FILE''"
        "\<not> present os secrets ''KUBERNETES_USERNAME''"
    by blast
  then show ?thesis
  proof cases
    case api
    then show ?thesis by (simp add: api_key_mode [OF assms api])
  next
    case cert
    then show ?thesis by (simp add: client_certificate_mode [OF assms cert])
  next
    case user
    then show ?thesis by (simp add: username_password_mode [OF assms user])
  next
    case none
    then show ?thesis by (simp add: anonymous_mode [OF assms none])
  qed
qed

text \<open>The mode at work on the sample world: the secrets \<^verbatim>\<open>{KUBERNETES_USERNAME: "u"}\<close>
  and an empty environment give the user name \<^verbatim>\<open>u\<close> and an empty password.\<close>

theorem authentication_mode_priority_witness:
  "\<exists>c. create_k8s_api_client (example_os [] Map.empty) example_kube
          (Some [''KUBERNETES_USERNAME'' \<mapsto> PyStr ''u'']) = Inr (ApiClient c) \<and>
        api_key c = Map.empty \<and> api_key_prefix c = Map.empty \<and>
        key_file c = PyNone \<and>
        username c = PyStr ''u'' \<and> password c = PyStr []"
  using authentication_mode_priority [OF example_os_no_file, of Map.empty example_kube
      "Some [''KUBERNETES_USERNAME'' \<mapsto> PyStr ''u'']"]
  by (simp add: present_def dict_contains_def example_os_environ example_kube_new_Configuration
      default_Configuration_def lookup_cases or_empty_def)

section \<open>Properties of discovery\<close>

text \<open>
  C8. Without a local config file, the exploration of the system does not raise: it logs
  its announcement and a warning and returns \<^verbatim>\<open>None\<close>. \<^verbatim>\<open>discover(True)\<close> then
  returns the record chaoslib initialised from the extension's name, version and type,
  with the exported activities appended and \<^verbatim>\<open>None\<close> as its system; the only exception
  it can end with is one raised while the activities were loaded, before the exploration.
\<close>

theorem discover_without_local_config:
  assumes "\<not> has_local_config_file os"
  shows "explore_kubernetes_system os k =
           ([(INFO, ''Discovering Kubernetes system''),
             (WARNING, ''Could not locate the default kubeconfig file'')], Inr None) \<and>
         discover os k lib True =
           (case load_exported_activities lib of
              Inl e \<Rightarrow>
                ([(INFO, ''Discovering capabilities from chaostoolkit-kubernetes'')], Inl e)
            | Inr found \<Rightarrow>
                ([(INFO, ''Discovering capabilities from chaostoolkit-kubernetes''),
                  (INFO, ''Discovering Kubernetes system''),
                  (WARNING, ''Could not locate the default kubeconfig file'')],
                 Inr ((initialize_discovery_result lib ''chaostoolkit-kubernetes'' ''0.11.0'' ''kubernetes'')
                   \<lparr>activities :=
                      activities (initialize_discovery_result lib
                        ''chaostoolkit-kubernetes'' ''0.11.0'' ''kubernetes'') @ found,
                    system := None\<rparr>)))"
proof -
  have explore: "explore_kubernetes_system os k =
      ([(INFO, ''Discovering Kubernetes system''),
        (WARNING, ''Could not locate the default kubeconfig file'')], Inr None)"
    using assms by (simp add: explore_kubernetes_system_def)
  show ?thesis
    by (simp add: explore discover_def version_def Let_def split: sum.splits)
qed

theorem discover_without_local_config_witness:
  "discover (example_os [] Map.empty) example_kube example_chaoslib True =
     ([(INFO, ''Discovering capabilities from chaostoolkit-kubernetes''),
       (INFO, ''Discovering Kubernetes system''),
       (WARNING, ''Could not locate the default kubeconfig file'')],
      Inr \<lparr>activities =
             [''chaosk8s.actions.an_action'', ''chaosk8s.probes.a_probe'',
              ''chaosk8s.pod.actions.an_action'', ''chaosk8s.pod.probes.a_probe''],
           system = None,
           extension_name = ''chaostoolkit-kubernetes'',
           extension_version = ''0.11.0'',
           target = ''kubernetes''\<rparr>)"
proof -
  have loaded: "load_exported_activities example_chaoslib =
      Inr [''chaosk8s.actions.an_action'', ''chaosk8s.probes.a_probe'',
           ''chaosk8s.pod.actions.an_action'', ''chaosk8s.pod.probes.a_probe'']"
    by (simp add: load_exported_activities_def example_chaoslib_def and_then_def)
  show ?thesis
    using discover_without_local_config [OF example_os_no_file, of Map.empty example_kube example_chaoslib]
    by (simp add: loaded) (simp add: example_chaoslib_def)
qed

lemma explore_namespace_cases:
  "explore_namespace k api info ns =
     (case fetch_pods k api ns of
        Inl e \<Rightarrow> Inl e
      | Inr pods \<Rightarrow>
          (case fetch_deployments k api ns of
             Inl e \<Rightarrow> Inl e
           | Inr deployments \<Rightarrow> Inr (info(''pods'' \<mapsto> pods, ''deployments'' \<mapsto> deployments))))"
  by (simp add: explore_namespace_def and_then_def split: sum.splits)

lemma returned_iff: "returned r \<longleftrightarrow> (\<exists>x. r = Inr x)"
  by (cases r) (simp_all add: returned_def)

text \<open>Every pass overwrites the two entries, so a loop that completes leaves what its last
  pass wrote.\<close>

lemma explore_namespaces_last:
  assumes "nss \<noteq> []"
    and "\<forall>ns\<in>set nss. returned (fetch_pods k api ns) \<and> returned (fetch_deployments k api ns)"
  shows "explore_namespaces k api info nss = explore_namespace k api info (last nss)"
  using assms
proof (induction nss arbitrary: info)
  case Nil
  then show ?case by simp
next
  case (Cons ns rest)
  from Cons.prems obtain pods deployments
    where ns: "fetch_pods k api ns = Inr pods" "fetch_deployments k api ns = Inr deployments"
    by (auto simp: returned_iff)
  show ?case
  proof (cases "rest = []")
    case True
    then show ?thesis
      by (simp add: explore_namespace_cases ns)
  next
    case False
    with Cons.prems have
      "explore_namespaces k api (info(''pods'' \<mapsto> pods, ''deployments'' \<mapsto> deployments)) rest
        = explore_namespace k api (info(''pods'' \<mapsto> pods, ''deployments'' \<mapsto> deployments)) (last rest)"
      by (intro Cons.IH) simp_all
    also have "\<dots> = explore_namespace k api info (last rest)"
      by (simp add: explore_namespace_cases split: sum.splits)
    finally show ?thesis
      using False by (simp add: explore_namespace_cases ns)
  qed
qed

text \<open>
  C9. With a local config file, when the cluster's answer decodes to a document whose
  \<^verbatim>\<open>"items"\<close> yield a non-empty sequence of namespaces and the fetches of every
  namespace return, \<^verbatim>\<open>explore_kubernetes_system\<close> returns a dictionary with exactly the
  entries \<^verbatim>\<open>"pods"\<close> and \<^verbatim>\<open>"deployments"\<close>, holding what was fetched for the last
  namespace of the sequence; nothing of an earlier namespace is in it.
\<close>

theorem only_last_namespace_survives:
  assumes "has_local_config_file os"
    and "new_client_from_config k = Inr api"
    and "list_namespace k api = Inr namespaces"
    and "json_loads k namespaces = Inr doc"
    and "py_getitem doc ''items'' = Inr items"
    and "py_iter items = Inr nss"
    and "nss \<noteq> []"
    and "\<forall>ns\<in>set nss. returned (fetch_pods k api ns) \<and> returned (fetch_deployments k api ns)"
  shows "\<exists>pods deployments.
           fetch_pods k api (last nss) = Inr pods \<and>
           fetch_deployments k api (last nss) = Inr deployments \<and>
           explore_kubernetes_system os k =
             ([(INFO, ''Discovering Kubernetes system'')],
              Inr (Some [''pods'' \<mapsto> pods, ''deployments'' \<mapsto> deployments]))"
proof -
  from assms(7) have "last nss \<in> set nss" by simp
  with assms(8) obtain pods deployments
    where last: "fetch_pods k api (last nss) = Inr pods"
      "fetch_deployments k api (last nss) = Inr deployments"
    by (auto simp: returned_iff)
  have "explore_namespaces k api Map.empty nss =
      Inr [''pods'' \<mapsto> pods, ''deployments'' \<mapsto> deployments]"
    by (simp add: explore_namespaces_last [OF assms(7,8)] explore_namespace_cases last)
  with assms(1-6) have "explore_kubernetes_system os k =
      ([(INFO, ''Discovering Kubernetes system'')],
       Inr (Some [''pods'' \<mapsto> pods, ''deployments'' \<mapsto> deployments]))"
    by (simp add: explore_kubernetes_system_def and_then_def)
  with last show ?thesis by blast
qed

theorem only_last_namespace_survives_witness:
  "explore_kubernetes_system (example_os [''/root/.kube/config''] Map.empty) example_kube =
     ([(INFO, ''Discovering Kubernetes system'')],
      Inr (Some [''pods'' \<mapsto> PyDict [(''items'', PyList [PyStr ''dns-1''])],
                 ''deployments'' \<mapsto> PyDict [(''items'', PyList [PyStr ''dns''])]]))"
proof -
  let ?api = "ApiClient (default_Configuration\<lparr>host := PyStr ''https://cluster.example:6443''\<rparr>)"
  let ?nss = "[example_namespace ''default'', example_namespace ''kube-system'']"
  have 1: "has_local_config_file (example_os [''/root/.kube/config''] Map.empty)"
    by (simp add: example_os_home_file)
  have 2: "new_client_from_config example_kube = Inr ?api"
    by (simp add: example_kube_def)
  have 3: "list_namespace example_kube ?api = Inr ''namespaces''"
    by (simp add: example_kube_def)
  have 4: "json_loads example_kube ''namespaces'' = Inr (PyDict [(''items'', PyList ?nss)])"
    by (simp add: example_kube_def example_documents_def)
  have 5: "py_getitem (PyDict [(''items'', PyList ?nss)]) ''items'' = Inr (PyList ?nss)"
    by simp
  have 6: "py_iter (PyList ?nss) = Inr ?nss"
    by simp
  have 7: "?nss \<noteq> []"
    by simp
  have 8: "\<forall>ns\<in>set ?nss. returned (fetch_pods example_kube ?api ns) \<and>
                          returned (fetch_deployments example_kube ?api ns)"
    by (simp add: example_fetch_pods example_fetch_deployments example_documents_def returned_def)
  from only_last_namespace_survives [OF 1 2 3 4 5 6 7 8] show ?thesis
    by (simp add: example_fetch_pods example_fetch_deployments example_documents_def)
qed

section \<open>Where the CA certificate path ends up\<close>

text \<open>
  Line 67 stores the value of \<^verbatim>\<open>KUBERNETES_CA_CERT_FILE\<close> in \<^verbatim>\<open>cert_file\<close>, the
  attribute that line 74 fills with the client certificate \<^verbatim>\<open>KUBERNETES_CERT_FILE\<close>,
  although the docstring calls it the path of the CA certificate. The three evaluations
  below show the consequences on the sample world.
\<close>

text \<open>
  C3. The environment holds \<^verbatim>\<open>KUBERNETES_API_KEY\<close>, \<^verbatim>\<open>KUBERNETES_CERT_FILE\<close> and
  \<^verbatim>\<open>KUBERNETES_CA_CERT_FILE\<close>. API-key mode is selected (key and prefix are set,
  \<^verbatim>\<open>key_file\<close> is not), yet \<^verbatim>\<open>cert_file\<close> is populated, with the CA path.
\<close>

theorem api_key_mode_with_ca_path_populates_cert_file:
  "\<exists>c. create_k8s_api_client
          (example_os [] [''KUBERNETES_API_KEY'' \<mapsto> ''abc'',
                          ''KUBERNETES_CERT_FILE'' \<mapsto> ''/etc/client.pem'',
                          ''KUBERNETES_CA_CERT_FILE'' \<mapsto> ''/etc/ca.pem''])
          example_kube None = Inr (ApiClient c) \<and>
        api_key c ''authorization'' = Some (PyStr ''abc'') \<and>
        api_key_prefix c ''authorization'' = Some (PyStr ''Bearer'') \<and>
        key_file c = PyNone \<and>
        cert_file c = PyStr ''/etc/ca.pem''"
  by (simp add: api_key_mode [OF example_os_no_file] present_def dict_contains_def
      example_os_environ example_kube_new_Configuration default_Configuration_def lookup_cases
      or_empty_def)

text \<open>
  C5. The environment holds \<^verbatim>\<open>KUBERNETES_CA_CERT_FILE\<close> and \<^verbatim>\<open>KUBERNETES_CERT_FILE\<close>.
  The configuration returned is the one returned without \<^verbatim>\<open>KUBERNETES_CA_CERT_FILE\<close>:
  \<^verbatim>\<open>cert_file\<close> is the client certificate and the CA path is in no field.
\<close>

theorem ca_path_lost_in_client_certificate_mode:
  "create_k8s_api_client
      (example_os [] [''KUBERNETES_CA_CERT_FILE'' \<mapsto> ''/etc/ca.pem'',
                      ''KUBERNETES_CERT_FILE'' \<mapsto> ''/etc/client.pem''])
      example_kube None
   = create_k8s_api_client
      (example_os [] [''KUBERNETES_CERT_FILE'' \<mapsto> ''/etc/client.pem''])
      example_kube None \<and>
   (\<exists>c. create_k8s_api_client
          (example_os [] [''KUBERNETES_CA_CERT_FILE'' \<mapsto> ''/etc/ca.pem'',
                          ''KUBERNETES_CERT_FILE'' \<mapsto> ''/etc/client.pem''])
          example_kube None = Inr (ApiClient c) \<and>
        cert_file c = PyStr ''/etc/client.pem'')"
  by (simp add: client_certificate_mode [OF example_os_no_file] present_def dict_contains_def
      example_os_environ example_kube_new_Configuration default_Configuration_def lookup_cases
      or_empty_def)

text \<open>
  C6. The environment holds \<^verbatim>\<open>KUBERNETES_USERNAME\<close> and \<^verbatim>\<open>KUBERNETES_CA_CERT_FILE\<close>:
  the user name and password are populated, and so is the client certificate field
  \<^verbatim>\<open>cert_file\<close>. With \<^verbatim>\<open>KUBERNETES_CA_CERT_FILE\<close> alone, none of the three keys that
  select a mode is present and \<^verbatim>\<open>cert_file\<close> is populated all the same.
\<close>

theorem two_modes_populated_with_ca_path:
  "(\<exists>c. create_k8s_api_client
          (example_os [] [''KUBERNETES_USERNAME'' \<mapsto> ''admin'',
                          ''KUBERNETES_CA_CERT_FILE'' \<mapsto> ''/etc/ca.pem''])
          example_kube None = Inr (ApiClient c) \<and>
        username c = PyStr ''admin'' \<and>
        password c = PyStr [] \<and>
        cert_file c = PyStr ''/etc/ca.pem'') \<and>
   (\<exists>c. create_k8s_api_client
          (example_os [] [''KUBERNETES_CA_CERT_FILE'' \<mapsto> ''/etc/ca.pem''])
          example_kube None = Inr (ApiClient c) \<and>
        api_key c = Map.empty \<and>
        username c = PyStr [] \<and>
        cert_file c = PyStr ''/etc/ca.pem'')"
  by (simp add: username_password_mode [OF example_os_no_file]
      anonymous_mode [OF example_os_no_file] present_def dict_contains_def
      example_os_environ example_kube_new_Configuration default_Configuration_def lookup_cases
      or_empty_def)

end
